theory Spec2Isabelle
  imports Complex_Main
begin

section \<open>The per-frame step of the car controller\<close>

text \<open>
  The repository holds three versions of the component \<open>CarController\<close>, each with one
  \<open>useFrame\<close> callback that is the whole simulation step:
  \<^item> the open-terrain version (bounded world of radius 400, \<open>hasLanded\<close> guard), here
    with the suffix \<open>_terrain\<close>;
  \<^item> the highway version (steering clamped to \<open>\<plusminus>\<pi>/3\<close>, world moved with \<open>+=\<close>, ride
    height pinned to 0, respawn keeps the anchor's z), suffix \<open>_highway\<close>;
  \<^item> the Porsche version (as the open-terrain one, without the \<open>hasLanded\<close> ref), suffix
    \<open>_porsche\<close>.

  JavaScript numbers are modelled as real numbers: rounding, infinities and NaN are not
  part of the model. The refs of the component (\<open>velocity\<close>, \<open>steeringAngle\<close>, ...) and
  the scene objects they point to are the fields of one state record that the step takes
  and returns. What the step reads from outside (the keyboard record, \<open>delta\<close>, the
  raycaster's answer, the values \<open>Math.random()\<close> yields inside \<open>onRespawn\<close>) is a
  record of inputs, one per frame.

  Sections 4 and 6 of the callback (body lean, wheel spin, camera) write only to objects
  that sections 1, 2, 3 and 5 never read; they are left out.
\<close>

subsection \<open>three.js values\<close>

record Vector3 =
  vx :: real
  vy :: real
  vz :: real

record Euler =
  ex :: real
  ey :: real
  ez :: real

text \<open>A scene object (\<open>Group\<close>), as far as the callback touches it.\<close>

record Group =
  position :: Vector3
  rotation :: Euler

text \<open>
  The functions of three.js that the callback calls, by their definitions in the library:
  \<open>clamp(value, min, max) = Math.max(min, Math.min(max, value))\<close>,
  \<open>lerp(x, y, t) = (1 - t) * x + t * y\<close>,
  \<open>normalize() = divideScalar(length() || 1)\<close>,
  \<open>divideScalar(s) = multiplyScalar(1 / s)\<close>.
\<close>

definition MathUtils_clamp :: "real \<Rightarrow> real \<Rightarrow> real \<Rightarrow> real" where
  "MathUtils_clamp v lo hi = max lo (min hi v)"

definition MathUtils_lerp :: "real \<Rightarrow> real \<Rightarrow> real \<Rightarrow> real" where
  "MathUtils_lerp a b t = (1 - t) * a + t * b"

definition Vector3_add :: "Vector3 \<Rightarrow> Vector3 \<Rightarrow> Vector3" where
  "Vector3_add a b = \<lparr>vx = vx a + vx b, vy = vy a + vy b, vz = vz a + vz b\<rparr>"

definition Vector3_length :: "Vector3 \<Rightarrow> real" where
  "Vector3_length a = sqrt (vx a * vx a + vy a * vy a + vz a * vz a)"

definition Vector3_multiplyScalar :: "Vector3 \<Rightarrow> real \<Rightarrow> Vector3" where
  "Vector3_multiplyScalar a s = \<lparr>vx = vx a * s, vy = vy a * s, vz = vz a * s\<rparr>"

definition Vector3_divideScalar :: "Vector3 \<Rightarrow> real \<Rightarrow> Vector3" where
  "Vector3_divideScalar a s = Vector3_multiplyScalar a (1 / s)"

definition Vector3_normalize :: "Vector3 \<Rightarrow> Vector3" where
  "Vector3_normalize a =
     Vector3_divideScalar a (if Vector3_length a = 0 then 1 else Vector3_length a)"

subsection \<open>Inputs of a frame\<close>

record Keys =
  forward :: bool
  backward :: bool
  left :: bool
  right :: bool
  brake :: bool

text \<open>
  One intersection returned by \<open>raycaster.intersectObjects\<close>: the name of the object hit,
  the point, and the face normal after \<open>transformDirection(hit.object.matrixWorld)\<close>.
\<close>

record Hit =
  object_name :: string
  point :: Vector3
  normal :: Vector3

text \<open>
  \<open>mounted\<close> is the guard at the top of the callback (all of \<open>worldRef.current\<close>,
  \<open>carGroupRef.current\<close>, \<open>carModelRef.current\<close> are set); \<open>random k\<close> is the value of the
  \<open>k\<close>-th call of \<open>Math.random()\<close> made by \<open>onRespawn\<close> in this frame.
\<close>

record Frame =
  keys :: Keys
  delta :: real
  intersects :: "Hit list"
  mounted :: bool
  random :: "nat \<Rightarrow> real"

subsection \<open>State\<close>

record CubeState =
  cube_position :: Vector3
  cube_velocity :: Vector3
  fallen :: bool

text \<open>
  The refs every version has. The Porsche version has exactly these; the other two add
  \<open>hasLanded\<close>.
\<close>

record Car =
  velocity :: real
  steeringAngle :: real
  isFalling :: bool
  verticalVelocity :: real
  worldRef :: Group
  carGroupRef :: Group
  cubeStates :: "CubeState list"

record LandedCar = Car +
  hasLanded :: bool

subsection \<open>Constants\<close>

definition maxSpeed :: real where "maxSpeed = 1.2"
definition acceleration :: real where "acceleration = 0.02"
definition deceleration :: real where "deceleration = 0.012"
definition friction :: real where "friction = 0.985"
definition turnSpeed :: real where "turnSpeed = 0.05"
definition gravity :: real where "gravity = 0.005"
definition worldRadius :: real where "worldRadius = 400"

subsection \<open>1. Movement physics\<close>

text \<open>The speed update: accelerate, reverse or coast; brake; clamp.\<close>

definition updateVelocity :: "Keys \<Rightarrow> real \<Rightarrow> real" where
  "updateVelocity k v =
     (let v1 = (if forward k then v + acceleration
                else if backward k then v - deceleration
                else v * friction);
          v2 = (if brake k then v1 * 0.88 else v1)
      in MathUtils_clamp v2 (- maxSpeed * 0.5) maxSpeed)"

text \<open>Steering, on the speed just computed (open-terrain and Porsche versions).\<close>

definition updateSteering :: "Keys \<Rightarrow> real \<Rightarrow> real \<Rightarrow> real" where
  "updateSteering k v a =
     (if \<bar>v\<bar> > 0.01 then
        (let steerFactor = \<bar>v\<bar> / maxSpeed;
             dir = (if v > 0 then 1 else - 1);
             a1 = (if left k then a + turnSpeed * steerFactor * dir else a);
             a2 = (if right k then a1 - turnSpeed * steerFactor * dir else a1)
         in a2)
      else a)"

text \<open>The highway version clamps the angle inside the same branch.\<close>

definition updateSteering_highway :: "Keys \<Rightarrow> real \<Rightarrow> real \<Rightarrow> real" where
  "updateSteering_highway k v a =
     (if \<bar>v\<bar> > 0.01 then
        (let steerFactor = \<bar>v\<bar> / maxSpeed;
             dir = (if v > 0 then 1 else - 1);
             a1 = (if left k then a + turnSpeed * steerFactor * dir else a);
             a2 = (if right k then a1 - turnSpeed * steerFactor * dir else a1)
         in MathUtils_clamp a2 (- pi / 3) (pi / 3))
      else a)"

definition movementPhysics :: "Keys \<Rightarrow> 'a Car_scheme \<Rightarrow> 'a Car_scheme" where
  "movementPhysics k s =
     (if \<not> isFalling s then
        (let v = updateVelocity k (velocity s)
         in s\<lparr>velocity := v, steeringAngle := updateSteering k v (steeringAngle s)\<rparr>)
      else s)"

definition movementPhysics_highway :: "Keys \<Rightarrow> 'a Car_scheme \<Rightarrow> 'a Car_scheme" where
  "movementPhysics_highway k s =
     (if \<not> isFalling s then
        (let v = updateVelocity k (velocity s)
         in s\<lparr>velocity := v, steeringAngle := updateSteering_highway k v (steeringAngle s)\<rparr>)
      else s)"

subsection \<open>2. Relative world movement\<close>

definition moveX :: "'a Car_scheme \<Rightarrow> real" where
  "moveX s = sin (steeringAngle s) * velocity s"

definition moveZ :: "'a Car_scheme \<Rightarrow> real" where
  "moveZ s = cos (steeringAngle s) * velocity s"

text \<open>
  Open-terrain and Porsche versions: \<open>position.x -= moveX\<close>, \<open>position.z -= moveZ\<close>, then
  \<open>rotation.set(0, 0, 0)\<close>.
\<close>

definition worldMovement :: "'a Car_scheme \<Rightarrow> 'a Car_scheme" where
  "worldMovement s =
     (let w = worldRef s; p = position w
      in s\<lparr>worldRef := w\<lparr>position := p\<lparr>vx := vx p - moveX s, vz := vz p - moveZ s\<rparr>,
                          rotation := \<lparr>ex = 0, ey = 0, ez = 0\<rparr>\<rparr>\<rparr>)"

text \<open>Highway version: \<open>position.x += moveX\<close>, \<open>position.z += moveZ\<close>.\<close>

definition worldMovement_highway :: "'a Car_scheme \<Rightarrow> 'a Car_scheme" where
  "worldMovement_highway s =
     (let w = worldRef s; p = position w
      in s\<lparr>worldRef := w\<lparr>position := p\<lparr>vx := vx p + moveX s, vz := vz p + moveZ s\<rparr>,
                          rotation := \<lparr>ex = 0, ey = 0, ez = 0\<rparr>\<rparr>\<rparr>)"

text \<open>The bounds check of the open-terrain and Porsche versions.\<close>

definition checkBounds :: "'a Car_scheme \<Rightarrow> 'a Car_scheme" where
  "checkBounds s =
     (let worldPos = position (worldRef s);
          distFromCenter = sqrt (vx worldPos * vx worldPos + vz worldPos * vz worldPos)
      in if distFromCenter > worldRadius then s\<lparr>isFalling := True\<rparr> else s)"

subsection \<open>3. Ground alignment and falling\<close>

text \<open>\<open>intersects.find(hit => hit.object.name === 'Terrain')\<close>\<close>

definition findGroundHit :: "Frame \<Rightarrow> Hit option" where
  "findGroundHit f = find (\<lambda>hit. object_name hit = ''Terrain'') (intersects f)"

text \<open>
  The writes to \<open>carGroupRef.current.rotation\<close> on a hit: yaw straight from the steering
  angle, pitch and roll eased towards the tilt of the terrain normal. The arguments of
  \<open>rotation.set\<close> are evaluated before it writes, so both eases read the old \<open>x\<close>, \<open>z\<close>.
\<close>

definition alignToGround :: "Frame \<Rightarrow> Hit \<Rightarrow> 'a Car_scheme \<Rightarrow> 'a Car_scheme" where
  "alignToGround f groundHit s =
     (let g = carGroupRef s;
          currentEuler = (rotation g)\<lparr>ey := steeringAngle s\<rparr>;
          n = normal groundHit;
          currentY = ey currentEuler;
          targetPitch = arcsin (vx n);
          targetRoll = - arcsin (vz n)
      in s\<lparr>carGroupRef := g\<lparr>rotation :=
            \<lparr>ex = MathUtils_lerp (ex currentEuler) targetPitch (delta f * 5),
             ey = currentY,
             ez = MathUtils_lerp (ez currentEuler) targetRoll (delta f * 5)\<rparr>\<rparr>\<rparr>)"

text \<open>
  The block \<open>if (!isFalling.current) { ... }\<close>. The open-terrain and Porsche versions also
  compute \<open>groundY\<close> (initially \<open>-100\<close>), returned as the first component.
\<close>

definition groundAlignment_terrain ::
  "Frame \<Rightarrow> 'a LandedCar_scheme \<Rightarrow> real \<times> 'a LandedCar_scheme" where
  "groundAlignment_terrain f s =
     (if \<not> isFalling s then
        (case findGroundHit f of
           Some groundHit \<Rightarrow>
             (vy (point groundHit), alignToGround f groundHit (s\<lparr>hasLanded := True\<rparr>))
         | None \<Rightarrow>
             (if hasLanded s then (- 100, s\<lparr>isFalling := True\<rparr>) else (- 100, s)))
      else (- 100, s))"

definition groundAlignment_highway ::
  "Frame \<Rightarrow> 'a LandedCar_scheme \<Rightarrow> 'a LandedCar_scheme" where
  "groundAlignment_highway f s =
     (if \<not> isFalling s then
        (case findGroundHit f of
           Some groundHit \<Rightarrow> alignToGround f groundHit (s\<lparr>hasLanded := True\<rparr>)
         | None \<Rightarrow> (if hasLanded s then s\<lparr>isFalling := True\<rparr> else s))
      else s)"

definition groundAlignment_porsche ::
  "Frame \<Rightarrow> 'a Car_scheme \<Rightarrow> real \<times> 'a Car_scheme" where
  "groundAlignment_porsche f s =
     (if \<not> isFalling s then
        (case findGroundHit f of
           Some groundHit \<Rightarrow> (vy (point groundHit), alignToGround f groundHit s)
         | None \<Rightarrow> (- 100, s\<lparr>isFalling := True\<rparr>))
      else (- 100, s))"

text \<open>
  \<open>onRespawn\<close> is \<open>handleRespawn\<close> of the application: every cube gets a fresh random
  position, zero velocity and \<open>fallen = false\<close>. Cube \<open>i\<close> consumes the random values
  \<open>2 i\<close> and \<open>2 i + 1\<close>.
\<close>

fun handleRespawn_from :: "nat \<Rightarrow> (nat \<Rightarrow> real) \<Rightarrow> CubeState list \<Rightarrow> CubeState list" where
  "handleRespawn_from i rnd [] = []"
| "handleRespawn_from i rnd (cube # cubes) =
     cube\<lparr>cube_position := \<lparr>vx = (rnd (2 * i) - 0.5) * 180, vy = 1,
                             vz = (rnd (2 * i + 1) - 0.5) * 180\<rparr>,
          cube_velocity := \<lparr>vx = 0, vy = 0, vz = 0\<rparr>,
          fallen := False\<rparr>
     # handleRespawn_from (Suc i) rnd cubes"

definition handleRespawn :: "(nat \<Rightarrow> real) \<Rightarrow> CubeState list \<Rightarrow> CubeState list" where
  "handleRespawn rnd cubes = handleRespawn_from 0 rnd cubes"

text \<open>The body of \<open>if (carGroupRef.current.position.y < -20) { ... }\<close>, per version.\<close>

definition respawn_terrain :: "(nat \<Rightarrow> real) \<Rightarrow> 'a LandedCar_scheme \<Rightarrow> 'a LandedCar_scheme" where
  "respawn_terrain rnd s =
     s\<lparr>cubeStates := handleRespawn rnd (cubeStates s),
       worldRef := (worldRef s)\<lparr>position := \<lparr>vx = 0, vy = 0, vz = 0\<rparr>\<rparr>,
       velocity := 0,
       steeringAngle := 0,
       isFalling := False,
       verticalVelocity := 0,
       hasLanded := False,
       carGroupRef := (carGroupRef s)\<lparr>position := (position (carGroupRef s))\<lparr>vy := 1\<rparr>,
                                     rotation := \<lparr>ex = 0, ey = 0, ez = 0\<rparr>\<rparr>\<rparr>"

definition respawn_highway :: "(nat \<Rightarrow> real) \<Rightarrow> 'a LandedCar_scheme \<Rightarrow> 'a LandedCar_scheme" where
  "respawn_highway rnd s =
     s\<lparr>cubeStates := handleRespawn rnd (cubeStates s),
       worldRef := (worldRef s)\<lparr>position := (position (worldRef s))\<lparr>vx := 0\<rparr>\<rparr>,
       velocity := 0,
       steeringAngle := 0,
       isFalling := False,
       verticalVelocity := 0,
       hasLanded := False,
       carGroupRef := (carGroupRef s)\<lparr>position := \<lparr>vx = 0, vy = 0.5, vz = 0\<rparr>,
                                     rotation := \<lparr>ex = 0, ey = 0, ez = 0\<rparr>\<rparr>\<rparr>"

definition respawn_porsche :: "(nat \<Rightarrow> real) \<Rightarrow> 'a Car_scheme \<Rightarrow> 'a Car_scheme" where
  "respawn_porsche rnd s =
     s\<lparr>cubeStates := handleRespawn rnd (cubeStates s),
       worldRef := (worldRef s)\<lparr>position := \<lparr>vx = 0, vy = 0, vz = 0\<rparr>\<rparr>,
       velocity := 0,
       steeringAngle := 0,
       isFalling := False,
       verticalVelocity := 0,
       carGroupRef := (carGroupRef s)\<lparr>position := (position (carGroupRef s))\<lparr>vy := 1\<rparr>,
                                     rotation := \<lparr>ex = 0, ey = 0, ez = 0\<rparr>\<rparr>\<rparr>"

text \<open>The first two statements of the falling branch: gravity, then the fall itself.\<close>

definition fall :: "'a Car_scheme \<Rightarrow> 'a Car_scheme" where
  "fall s =
     (let vv = verticalVelocity s - gravity;
          g = carGroupRef s
      in s\<lparr>verticalVelocity := vv,
           carGroupRef := g\<lparr>position := (position g)\<lparr>vy := vy (position g) + vv\<rparr>\<rparr>\<rparr>)"

definition carY :: "'a Car_scheme \<Rightarrow> real" where
  "carY s = vy (position (carGroupRef s))"

definition setCarY :: "real \<Rightarrow> 'a Car_scheme \<Rightarrow> 'a Car_scheme" where
  "setCarY h s = s\<lparr>carGroupRef := (carGroupRef s)\<lparr>position := (position (carGroupRef s))\<lparr>vy := h\<rparr>\<rparr>\<rparr>"

text \<open>The block \<open>if (isFalling.current) { ... } else { ... }\<close>, per version.\<close>

definition fallOrStick_terrain ::
  "Frame \<Rightarrow> real \<Rightarrow> 'a LandedCar_scheme \<Rightarrow> 'a LandedCar_scheme" where
  "fallOrStick_terrain f groundY s =
     (if isFalling s then
        (let s1 = fall s
         in if carY s1 < - 20 then respawn_terrain (random f) s1 else s1)
      else setCarY (MathUtils_lerp (carY s) groundY (delta f * 15)) s)"

definition fallOrStick_highway :: "Frame \<Rightarrow> 'a LandedCar_scheme \<Rightarrow> 'a LandedCar_scheme" where
  "fallOrStick_highway f s =
     (if isFalling s then
        (let s1 = fall s
         in if carY s1 < - 20 then respawn_highway (random f) s1 else s1)
      else setCarY 0 s)"

definition fallOrStick_porsche :: "Frame \<Rightarrow> real \<Rightarrow> 'a Car_scheme \<Rightarrow> 'a Car_scheme" where
  "fallOrStick_porsche f groundY s =
     (if isFalling s then
        (let s1 = fall s
         in if carY s1 < - 20 then respawn_porsche (random f) s1 else s1)
      else setCarY (MathUtils_lerp (carY s) groundY (delta f * 15)) s)"

subsection \<open>5. Cube collisions\<close>

text \<open>The body of \<open>cubeStates.current.forEach(cube => ...)\<close>, the same in every version.\<close>

definition cubeCollision :: "Vector3 \<Rightarrow> real \<Rightarrow> CubeState \<Rightarrow> CubeState" where
  "cubeCollision worldPos v cube =
     (if fallen cube then cube
      else
        (let cubeGlobal = Vector3_add (cube_position cube) worldPos;
             dist = Vector3_length \<lparr>vx = vx cubeGlobal, vy = 0, vz = vz cubeGlobal\<rparr>
         in if dist < 2.5 then
              (let pushDir = (Vector3_normalize cubeGlobal)\<lparr>vy := 0.5\<rparr>
               in cube\<lparr>cube_velocity :=
                    Vector3_add (cube_velocity cube)
                      (Vector3_multiplyScalar pushDir (\<bar>v\<bar> * 1.5 + 0.2))\<rparr>)
            else cube))"

definition cubeCollisions :: "'a Car_scheme \<Rightarrow> 'a Car_scheme" where
  "cubeCollisions s =
     s\<lparr>cubeStates := map (cubeCollision (position (worldRef s)) (velocity s)) (cubeStates s)\<rparr>"

subsection \<open>The callback\<close>

definition useFrame_terrain :: "Frame \<Rightarrow> 'a LandedCar_scheme \<Rightarrow> 'a LandedCar_scheme" where
  "useFrame_terrain f s =
     (if \<not> mounted f then s
      else
        (let s1 = movementPhysics (keys f) s;
             s2 = checkBounds (worldMovement s1);
             (groundY, s3) = groundAlignment_terrain f s2;
             s4 = fallOrStick_terrain f groundY s3
         in cubeCollisions s4))"

definition useFrame_highway :: "Frame \<Rightarrow> 'a LandedCar_scheme \<Rightarrow> 'a LandedCar_scheme" where
  "useFrame_highway f s =
     (if \<not> mounted f then s
      else
        (let s1 = movementPhysics_highway (keys f) s;
             s2 = worldMovement_highway s1;
             s3 = groundAlignment_highway f s2;
             s4 = fallOrStick_highway f s3
         in cubeCollisions s4))"

definition useFrame_porsche :: "Frame \<Rightarrow> 'a Car_scheme \<Rightarrow> 'a Car_scheme" where
  "useFrame_porsche f s =
     (if \<not> mounted f then s
      else
        (let s1 = movementPhysics (keys f) s;
             s2 = checkBounds (worldMovement s1);
             (groundY, s3) = groundAlignment_porsche f s2;
             s4 = fallOrStick_porsche f groundY s3
         in cubeCollisions s4))"

text \<open>
  The state at mount: the initial values of the refs, the car group at \<open>[0, 1, 0]\<close>
  (\<open>[0, 2, 0]\<close> in the Porsche version), the world group untransformed, and the cubes the
  application made.
\<close>

definition origin :: Group where
  "origin = \<lparr>position = \<lparr>vx = 0, vy = 0, vz = 0\<rparr>, rotation = \<lparr>ex = 0, ey = 0, ez = 0\<rparr>\<rparr>"

definition initial :: "CubeState list \<Rightarrow> LandedCar" where
  "initial cubes =
     \<lparr>velocity = 0, steeringAngle = 0, isFalling = False, verticalVelocity = 0,
      worldRef = origin,
      carGroupRef = origin\<lparr>position := \<lparr>vx = 0, vy = 1, vz = 0\<rparr>\<rparr>,
      cubeStates = cubes, hasLanded = False\<rparr>"

definition initial_porsche :: "CubeState list \<Rightarrow> Car" where
  "initial_porsche cubes =
     \<lparr>velocity = 0, steeringAngle = 0, isFalling = False, verticalVelocity = 0,
      worldRef = origin,
      carGroupRef = origin\<lparr>position := \<lparr>vx = 0, vy = 2, vz = 0\<rparr>\<rparr>,
      cubeStates = cubes\<rparr>"

text \<open>A session: the callback run on a sequence of frames, first frame first.\<close>

definition run_terrain :: "Frame list \<Rightarrow> LandedCar \<Rightarrow> LandedCar" where
  "run_terrain fs s = foldl (\<lambda>s f. useFrame_terrain f s) s fs"

definition run_highway :: "Frame list \<Rightarrow> LandedCar \<Rightarrow> LandedCar" where
  "run_highway fs s = foldl (\<lambda>s f. useFrame_highway f s) s fs"

subsection \<open>The anchor invariant and sample inputs\<close>

text \<open>The world anchor is unrotated and at height 0.\<close>

definition anchorAligned :: "'a Car_scheme \<Rightarrow> bool" where
  "anchorAligned s \<longleftrightarrow>
     rotation (worldRef s) = \<lparr>ex = 0, ey = 0, ez = 0\<rparr> \<and> vy (position (worldRef s)) = 0"

text \<open>
  Inputs for the examples: a \<open>Math.random\<close> that always yields one half, no key held, a
  mounted frame of one sixtieth of a second, and a raycaster hit on flat terrain at
  height 0.
\<close>

definition coin :: "nat \<Rightarrow> real" where
  "coin k = 0.5"

definition idle :: Keys where
  "idle = \<lparr>forward = False, backward = False, left = False, right = False, brake = False\<rparr>"

definition frame :: "Keys \<Rightarrow> Hit list \<Rightarrow> Frame" where
  "frame k hits = \<lparr>keys = k, delta = 1 / 60, intersects = hits, mounted = True, random = coin\<rparr>"

definition terrainHit :: Hit where
  "terrainHit = \<lparr>object_name = ''Terrain'', point = \<lparr>vx = 0, vy = 0, vz = 0\<rparr>,
                  normal = \<lparr>vx = 0, vy = 1, vz = 0\<rparr>\<rparr>"

section \<open>Properties\<close>

lemmas all_defs =
  useFrame_terrain_def useFrame_highway_def useFrame_porsche_def
  movementPhysics_def movementPhysics_highway_def updateVelocity_def updateSteering_def
  updateSteering_highway_def worldMovement_def worldMovement_highway_def moveX_def moveZ_def
  checkBounds_def groundAlignment_terrain_def groundAlignment_highway_def
  groundAlignment_porsche_def findGroundHit_def alignToGround_def
  fallOrStick_terrain_def fallOrStick_highway_def fallOrStick_porsche_def
  fall_def carY_def setCarY_def respawn_terrain_def respawn_highway_def respawn_porsche_def
  handleRespawn_def cubeCollisions_def cubeCollision_def
  MathUtils_clamp_def MathUtils_lerp_def
  maxSpeed_def acceleration_def deceleration_def friction_def turnSpeed_def gravity_def
  worldRadius_def initial_def initial_porsche_def origin_def Let_def
  coin_def idle_def frame_def terrainHit_def

subsection \<open>What each stage leaves alone\<close>

lemma updateVelocity_bounds:
  "- (maxSpeed * 0.5) \<le> updateVelocity k v \<and> updateVelocity k v \<le> maxSpeed"
  by (simp add: updateVelocity_def MathUtils_clamp_def maxSpeed_def Let_def)

lemma movementPhysics_falling: "isFalling s \<Longrightarrow> movementPhysics k s = s"
  by (simp add: movementPhysics_def)

lemma movementPhysics_highway_falling: "isFalling s \<Longrightarrow> movementPhysics_highway k s = s"
  by (simp add: movementPhysics_highway_def)

lemma movementPhysics_fields:
  "isFalling (movementPhysics k s) = isFalling s"
  "verticalVelocity (movementPhysics k s) = verticalVelocity s"
  "carGroupRef (movementPhysics k s) = carGroupRef s"
  "worldRef (movementPhysics k s) = worldRef s"
  "velocity (movementPhysics k s) = (if isFalling s then velocity s else updateVelocity k (velocity s))"
  by (simp_all add: movementPhysics_def Let_def)

lemma movementPhysics_highway_fields:
  "isFalling (movementPhysics_highway k s) = isFalling s"
  "verticalVelocity (movementPhysics_highway k s) = verticalVelocity s"
  "carGroupRef (movementPhysics_highway k s) = carGroupRef s"
  "worldRef (movementPhysics_highway k s) = worldRef s"
  "velocity (movementPhysics_highway k s) =
     (if isFalling s then velocity s else updateVelocity k (velocity s))"
  by (simp_all add: movementPhysics_highway_def Let_def)

lemma worldMovement_fields:
  "velocity (worldMovement s) = velocity s"
  "steeringAngle (worldMovement s) = steeringAngle s"
  "isFalling (worldMovement s) = isFalling s"
  "verticalVelocity (worldMovement s) = verticalVelocity s"
  "carGroupRef (worldMovement s) = carGroupRef s"
  by (simp_all add: worldMovement_def Let_def)

lemma worldMovement_highway_fields:
  "velocity (worldMovement_highway s) = velocity s"
  "steeringAngle (worldMovement_highway s) = steeringAngle s"
  "isFalling (worldMovement_highway s) = isFalling s"
  "verticalVelocity (worldMovement_highway s) = verticalVelocity s"
  "carGroupRef (worldMovement_highway s) = carGroupRef s"
  by (simp_all add: worldMovement_highway_def Let_def)

lemma worldMovement_anchor:
  "position (worldRef (worldMovement s)) =
     (position (worldRef s))\<lparr>vx := vx (position (worldRef s)) - sin (steeringAngle s) * velocity s,
                              vz := vz (position (worldRef s)) - cos (steeringAngle s) * velocity s\<rparr>"
  "rotation (worldRef (worldMovement s)) = \<lparr>ex = 0, ey = 0, ez = 0\<rparr>"
  by (simp_all add: worldMovement_def moveX_def moveZ_def Let_def)

lemma worldMovement_highway_anchor:
  "position (worldRef (worldMovement_highway s)) =
     (position (worldRef s))\<lparr>vx := vx (position (worldRef s)) + sin (steeringAngle s) * velocity s,
                              vz := vz (position (worldRef s)) + cos (steeringAngle s) * velocity s\<rparr>"
  "rotation (worldRef (worldMovement_highway s)) = \<lparr>ex = 0, ey = 0, ez = 0\<rparr>"
  by (simp_all add: worldMovement_highway_def moveX_def moveZ_def Let_def)

lemma checkBounds_fields:
  "velocity (checkBounds s) = velocity s"
  "steeringAngle (checkBounds s) = steeringAngle s"
  "verticalVelocity (checkBounds s) = verticalVelocity s"
  "carGroupRef (checkBounds s) = carGroupRef s"
  "worldRef (checkBounds s) = worldRef s"
  by (simp_all add: checkBounds_def Let_def)

lemma checkBounds_falling: "isFalling s \<Longrightarrow> checkBounds s = s"
  by (simp add: checkBounds_def Let_def)

lemma cubeCollisions_fields:
  "velocity (cubeCollisions s) = velocity s"
  "steeringAngle (cubeCollisions s) = steeringAngle s"
  "isFalling (cubeCollisions s) = isFalling s"
  "verticalVelocity (cubeCollisions s) = verticalVelocity s"
  "carGroupRef (cubeCollisions s) = carGroupRef s"
  "worldRef (cubeCollisions s) = worldRef s"
  by (simp_all add: cubeCollisions_def)

lemma cubeCollisions_hasLanded: "hasLanded (cubeCollisions s) = hasLanded s"
  by (simp add: cubeCollisions_def)

lemma carY_cubeCollisions: "carY (cubeCollisions s) = carY s"
  by (simp add: carY_def cubeCollisions_def)

subsection \<open>A frame that starts in the falling state\<close>

lemma useFrame_terrain_falling:
  assumes "isFalling s" "mounted f"
  shows "useFrame_terrain f s =
           cubeCollisions (if carY (fall (worldMovement s)) < - 20
                           then respawn_terrain (random f) (fall (worldMovement s))
                           else fall (worldMovement s))"
  using assms
  by (simp add: useFrame_terrain_def movementPhysics_falling checkBounds_falling
      worldMovement_fields groundAlignment_terrain_def fallOrStick_terrain_def Let_def)

lemma useFrame_highway_falling:
  assumes "isFalling s" "mounted f"
  shows "useFrame_highway f s =
           cubeCollisions (if carY (fall (worldMovement_highway s)) < - 20
                           then respawn_highway (random f) (fall (worldMovement_highway s))
                           else fall (worldMovement_highway s))"
  using assms
  by (simp add: useFrame_highway_def movementPhysics_highway_falling
      worldMovement_highway_fields groundAlignment_highway_def fallOrStick_highway_def Let_def)

lemma useFrame_porsche_falling:
  assumes "isFalling s" "mounted f"
  shows "useFrame_porsche f s =
           cubeCollisions (if carY (fall (worldMovement s)) < - 20
                           then respawn_porsche (random f) (fall (worldMovement s))
                           else fall (worldMovement s))"
  using assms
  by (simp add: useFrame_porsche_def movementPhysics_falling checkBounds_falling
      worldMovement_fields groundAlignment_porsche_def fallOrStick_porsche_def Let_def)

lemma fall_fields:
  "velocity (fall s) = velocity s"
  "steeringAngle (fall s) = steeringAngle s"
  "isFalling (fall s) = isFalling s"
  "worldRef (fall s) = worldRef s"
  "verticalVelocity (fall s) = verticalVelocity s - gravity"
  "carY (fall s) = carY s + (verticalVelocity s - gravity)"
  by (simp_all add: fall_def carY_def Let_def)

lemma carY_worldMovement: "carY (worldMovement s) = carY s"
  by (simp add: carY_def worldMovement_fields)

lemma carY_worldMovement_highway: "carY (worldMovement_highway s) = carY s"
  by (simp add: carY_def worldMovement_highway_fields)

lemma respawn_fields:
  "velocity (respawn_terrain r s) = 0" "velocity (respawn_highway r s) = 0"
  "steeringAngle (respawn_terrain r s) = 0" "steeringAngle (respawn_highway r s) = 0"
  "isFalling (respawn_terrain r s) = False" "isFalling (respawn_highway r s) = False"
  "verticalVelocity (respawn_terrain r s) = 0" "verticalVelocity (respawn_highway r s) = 0"
  "hasLanded (respawn_terrain r s) = False" "hasLanded (respawn_highway r s) = False"
  "carY (respawn_terrain r s) = 1" "carY (respawn_highway r s) = 0.5"
  by (simp_all add: respawn_terrain_def respawn_highway_def carY_def)

lemma respawn_porsche_fields:
  "velocity (respawn_porsche r s) = 0"
  "steeringAngle (respawn_porsche r s) = 0"
  "isFalling (respawn_porsche r s) = False"
  "verticalVelocity (respawn_porsche r s) = 0"
  "carY (respawn_porsche r s) = 1"
  by (simp_all add: respawn_porsche_def carY_def)

subsection \<open>Speed and heading across one frame\<close>

lemma groundAlignment_terrain_velocity:
  "velocity (snd (groundAlignment_terrain f s)) = velocity s"
  by (simp add: groundAlignment_terrain_def alignToGround_def Let_def split: option.split)

lemma groundAlignment_highway_velocity:
  "velocity (groundAlignment_highway f s) = velocity s"
  by (simp add: groundAlignment_highway_def alignToGround_def Let_def split: option.split)


lemma fallOrStick_terrain_velocity:
  "velocity (fallOrStick_terrain f g s) = velocity s \<or> velocity (fallOrStick_terrain f g s) = 0"
  by (simp add: fallOrStick_terrain_def fall_fields respawn_fields setCarY_def Let_def)

lemma fallOrStick_highway_velocity:
  "velocity (fallOrStick_highway f s) = velocity s \<or> velocity (fallOrStick_highway f s) = 0"
  by (simp add: fallOrStick_highway_def fall_fields respawn_fields setCarY_def Let_def)


text \<open>
  After a frame the speed is the old one (falling, or not mounted), the one the speed
  update gives, or 0 (respawn).
\<close>

lemma useFrame_terrain_velocity:
  "velocity (useFrame_terrain f s) = velocity s
   \<or> velocity (useFrame_terrain f s) = updateVelocity (keys f) (velocity s)
   \<or> velocity (useFrame_terrain f s) = 0"
proof (cases "mounted f")
  case False
  then show ?thesis by (simp add: useFrame_terrain_def)
next
  case True
  obtain g s3 where ga:
    "groundAlignment_terrain f (checkBounds (worldMovement (movementPhysics (keys f) s))) = (g, s3)"
    by (cases "groundAlignment_terrain f (checkBounds (worldMovement (movementPhysics (keys f) s)))")
  have v3: "velocity s3 = velocity (movementPhysics (keys f) s)"
    using groundAlignment_terrain_velocity
            [of f "checkBounds (worldMovement (movementPhysics (keys f) s))"]
    by (simp add: ga checkBounds_fields worldMovement_fields)
  have "useFrame_terrain f s = cubeCollisions (fallOrStick_terrain f g s3)"
    using True by (simp add: useFrame_terrain_def ga Let_def)
  then show ?thesis
    using fallOrStick_terrain_velocity [of f g s3] v3
    by (auto simp add: cubeCollisions_fields movementPhysics_fields)
qed

lemma useFrame_highway_velocity:
  "velocity (useFrame_highway f s) = velocity s
   \<or> velocity (useFrame_highway f s) = updateVelocity (keys f) (velocity s)
   \<or> velocity (useFrame_highway f s) = 0"
proof (cases "mounted f")
  case False
  then show ?thesis by (simp add: useFrame_highway_def)
next
  case True
  let ?s3 = "groundAlignment_highway f (worldMovement_highway (movementPhysics_highway (keys f) s))"
  have v3: "velocity ?s3 = velocity (movementPhysics_highway (keys f) s)"
    by (simp add: groundAlignment_highway_velocity worldMovement_highway_fields)
  have "useFrame_highway f s = cubeCollisions (fallOrStick_highway f ?s3)"
    using True by (simp add: useFrame_highway_def Let_def)
  then show ?thesis
    using fallOrStick_highway_velocity [of f ?s3] v3
    by (auto simp add: cubeCollisions_fields movementPhysics_highway_fields)
qed

text \<open>The speed bound is kept by one frame, hence by any number of frames.\<close>

lemma useFrame_terrain_speed_bounds:
  assumes "- (maxSpeed * 0.5) \<le> velocity s \<and> velocity s \<le> maxSpeed"
  shows "- (maxSpeed * 0.5) \<le> velocity (useFrame_terrain f s)
         \<and> velocity (useFrame_terrain f s) \<le> maxSpeed"
proof -
  have zero: "- (maxSpeed * 0.5) \<le> 0 \<and> 0 \<le> maxSpeed"
    by (simp add: maxSpeed_def)
  show ?thesis
    using assms zero updateVelocity_bounds [of "keys f" "velocity s"]
      useFrame_terrain_velocity [of f s]
    by auto
qed

lemma useFrame_highway_speed_bounds:
  assumes "- (maxSpeed * 0.5) \<le> velocity s \<and> velocity s \<le> maxSpeed"
  shows "- (maxSpeed * 0.5) \<le> velocity (useFrame_highway f s)
         \<and> velocity (useFrame_highway f s) \<le> maxSpeed"
proof -
  have zero: "- (maxSpeed * 0.5) \<le> 0 \<and> 0 \<le> maxSpeed"
    by (simp add: maxSpeed_def)
  show ?thesis
    using assms zero updateVelocity_bounds [of "keys f" "velocity s"]
      useFrame_highway_velocity [of f s]
    by auto
qed

lemma run_terrain_speed_bounds:
  "- (maxSpeed * 0.5) \<le> velocity s \<and> velocity s \<le> maxSpeed \<Longrightarrow>
   - (maxSpeed * 0.5) \<le> velocity (run_terrain fs s) \<and> velocity (run_terrain fs s) \<le> maxSpeed"
  unfolding run_terrain_def
proof (induction fs arbitrary: s)
  case Nil
  then show ?case by simp
next
  case (Cons f fs)
  from Cons.IH [OF useFrame_terrain_speed_bounds [OF Cons.prems, of f]]
  show ?case by simp
qed

lemma run_highway_speed_bounds:
  "- (maxSpeed * 0.5) \<le> velocity s \<and> velocity s \<le> maxSpeed \<Longrightarrow>
   - (maxSpeed * 0.5) \<le> velocity (run_highway fs s) \<and> velocity (run_highway fs s) \<le> maxSpeed"
  unfolding run_highway_def
proof (induction fs arbitrary: s)
  case Nil
  then show ?case by simp
next
  case (Cons f fs)
  from Cons.IH [OF useFrame_highway_speed_bounds [OF Cons.prems, of f]]
  show ?case by simp
qed








subsection \<open>The world anchor across frames\<close>

lemma groundAlignment_terrain_worldRef:
  "worldRef (snd (groundAlignment_terrain f s)) = worldRef s"
  by (simp add: groundAlignment_terrain_def alignToGround_def Let_def split: option.split)

lemma groundAlignment_highway_worldRef:
  "worldRef (groundAlignment_highway f s) = worldRef s"
  by (simp add: groundAlignment_highway_def alignToGround_def Let_def split: option.split)

lemma fallOrStick_terrain_anchor:
  "rotation (worldRef (fallOrStick_terrain f g s)) = rotation (worldRef s)"
  "vy (position (worldRef s)) = 0 \<Longrightarrow> vy (position (worldRef (fallOrStick_terrain f g s))) = 0"
  by (simp_all add: fallOrStick_terrain_def fall_def respawn_terrain_def setCarY_def Let_def)

lemma fallOrStick_highway_anchor:
  "rotation (worldRef (fallOrStick_highway f s)) = rotation (worldRef s)"
  "vy (position (worldRef (fallOrStick_highway f s))) = vy (position (worldRef s))"
  by (simp_all add: fallOrStick_highway_def fall_def respawn_highway_def setCarY_def Let_def)

lemma useFrame_terrain_rotation:
  "rotation (worldRef (useFrame_terrain f s)) =
     (if mounted f then \<lparr>ex = 0, ey = 0, ez = 0\<rparr> else rotation (worldRef s))"
proof (cases "mounted f")
  case False
  then show ?thesis by (simp add: useFrame_terrain_def)
next
  case True
  obtain g s3 where ga:
    "groundAlignment_terrain f (checkBounds (worldMovement (movementPhysics (keys f) s))) = (g, s3)"
    by (cases "groundAlignment_terrain f (checkBounds (worldMovement (movementPhysics (keys f) s)))")
  have w3: "worldRef s3 = worldRef (worldMovement (movementPhysics (keys f) s))"
    using groundAlignment_terrain_worldRef
            [of f "checkBounds (worldMovement (movementPhysics (keys f) s))"]
    by (simp add: ga checkBounds_fields)
  have "useFrame_terrain f s = cubeCollisions (fallOrStick_terrain f g s3)"
    using True by (simp add: useFrame_terrain_def ga Let_def)
  then show ?thesis
    using True by (simp add: cubeCollisions_fields fallOrStick_terrain_anchor w3 worldMovement_anchor)
qed

lemma useFrame_terrain_anchorAligned:
  assumes "anchorAligned s"
  shows "anchorAligned (useFrame_terrain f s)"
proof (cases "mounted f")
  case False
  then show ?thesis using assms by (simp add: useFrame_terrain_def)
next
  case True
  obtain g s3 where ga:
    "groundAlignment_terrain f (checkBounds (worldMovement (movementPhysics (keys f) s))) = (g, s3)"
    by (cases "groundAlignment_terrain f (checkBounds (worldMovement (movementPhysics (keys f) s)))")
  have w3: "worldRef s3 = worldRef (worldMovement (movementPhysics (keys f) s))"
    using groundAlignment_terrain_worldRef
            [of f "checkBounds (worldMovement (movementPhysics (keys f) s))"]
    by (simp add: ga checkBounds_fields)
  have y3: "vy (position (worldRef s3)) = 0"
    using assms by (simp add: w3 worldMovement_anchor movementPhysics_fields anchorAligned_def)
  have "useFrame_terrain f s = cubeCollisions (fallOrStick_terrain f g s3)"
    using True by (simp add: useFrame_terrain_def ga Let_def)
  then show ?thesis
    using True y3
    by (simp add: anchorAligned_def cubeCollisions_fields fallOrStick_terrain_anchor w3
        worldMovement_anchor)
qed

lemma useFrame_highway_rotation:
  "rotation (worldRef (useFrame_highway f s)) =
     (if mounted f then \<lparr>ex = 0, ey = 0, ez = 0\<rparr> else rotation (worldRef s))"
  by (simp add: useFrame_highway_def Let_def cubeCollisions_fields fallOrStick_highway_anchor
      groundAlignment_highway_worldRef worldMovement_highway_anchor)

lemma useFrame_highway_anchorAligned:
  assumes "anchorAligned s"
  shows "anchorAligned (useFrame_highway f s)"
  using assms
  by (simp add: anchorAligned_def useFrame_highway_rotation)
     (simp add: useFrame_highway_def Let_def cubeCollisions_fields fallOrStick_highway_anchor
      groundAlignment_highway_worldRef worldMovement_highway_anchor movementPhysics_highway_fields)

lemma run_terrain_anchorAligned:
  "anchorAligned s \<Longrightarrow> anchorAligned (run_terrain fs s)"
  unfolding run_terrain_def
  by (induction fs arbitrary: s) (simp_all add: useFrame_terrain_anchorAligned)

lemma run_highway_anchorAligned:
  "anchorAligned s \<Longrightarrow> anchorAligned (run_highway fs s)"
  unfolding run_highway_def
  by (induction fs arbitrary: s) (simp_all add: useFrame_highway_anchorAligned)

lemma initial_anchorAligned: "anchorAligned (initial cubes)"
  by (simp add: anchorAligned_def initial_def origin_def)

subsection \<open>The push of scenario B\<close>

lemma sqrt5_not_2: "sqrt 5 \<noteq> (2::real)"
proof
  assume "sqrt 5 = (2::real)"
  then have "(sqrt 5)\<^sup>2 = (2::real)\<^sup>2" by simp
  then show False by simp
qed

lemma scenarioB_lengths:
  "Vector3_length \<lparr>vx = 0, vy = 0, vz = 2\<rparr> = 2"
  "Vector3_length \<lparr>vx = 0, vy = 1, vz = 2\<rparr> = sqrt 5"
  by (simp_all add: Vector3_length_def)

lemma scenarioB_velocity:
  "cube_velocity (cubeCollision \<lparr>vx = 0, vy = 0, vz = 0\<rparr> 0.5
      \<lparr>cube_position = \<lparr>vx = 0, vy = 1, vz = 2\<rparr>,
       cube_velocity = \<lparr>vx = 0, vy = 0, vz = 0\<rparr>, fallen = False\<rparr>)
   = \<lparr>vx = 0, vy = 0.5 * 0.95, vz = 2 / sqrt 5 * 0.95\<rparr>"
  by (simp add: cubeCollision_def Vector3_add_def scenarioB_lengths Let_def
      Vector3_normalize_def Vector3_divideScalar_def Vector3_multiplyScalar_def)

section \<open>The claims\<close>

subsection \<open>C1: the scroll-world displacement\<close>

text \<open>
  C1. In every version the scroll-world stage computes \<open>moveX = sin(heading) * speed\<close> and
  \<open>moveZ = cos(heading) * speed\<close> from the current heading and speed, for all their
  values, and leaves the anchor's height alone. The open-terrain and Porsche versions
  subtract the displacement from the anchor (\<open>x\<close> decreases by \<open>moveX\<close>, \<open>z\<close> by \<open>moveZ\<close>);
  the highway version adds it (\<open>x\<close> increases by \<open>moveX\<close>, \<open>z\<close> by \<open>moveZ\<close>).
\<close>

theorem C1_world_anchor_displacement:
  "moveX s = sin (steeringAngle s) * velocity s
   \<and> moveZ s = cos (steeringAngle s) * velocity s
   \<and> vx (position (worldRef (worldMovement s))) = vx (position (worldRef s)) - moveX s
   \<and> vz (position (worldRef (worldMovement s))) = vz (position (worldRef s)) - moveZ s
   \<and> vy (position (worldRef (worldMovement s))) = vy (position (worldRef s))
   \<and> vx (position (worldRef (worldMovement_highway s))) = vx (position (worldRef s)) + moveX s
   \<and> vz (position (worldRef (worldMovement_highway s))) = vz (position (worldRef s)) + moveZ s
   \<and> vy (position (worldRef (worldMovement_highway s))) = vy (position (worldRef s))"
  by (simp add: worldMovement_anchor worldMovement_highway_anchor moveX_def moveZ_def)

text \<open>
  In the highway version, heading 0 and speed 1 take the anchor from \<open>z = 0\<close> to \<open>z = 1\<close>,
  not to \<open>z = 0 - cos 0 * 1 = -1\<close>.
\<close>

theorem C1_highway_adds_counterexample:
  "vz (position (worldRef (worldMovement_highway ((initial [])\<lparr>velocity := 1\<rparr>))))
     \<noteq> vz (position (worldRef ((initial [])\<lparr>velocity := 1\<rparr>)))
         - cos (steeringAngle ((initial [])\<lparr>velocity := 1\<rparr>))
           * velocity ((initial [])\<lparr>velocity := 1\<rparr>)"
  by (simp add: worldMovement_highway_anchor initial_def origin_def)

subsection \<open>C2: the ground probe and \<open>hasLanded\<close>\<close>




subsection \<open>C3: kinematics while falling\<close>

text \<open>
  C3. While the car is falling the movement-physics block is skipped: for every intent
  vector it returns the state unchanged, so neither the accelerate/coast/brake rule nor
  the steering rule is applied. After a frame that starts falling, speed and heading are
  what they were before it, or 0 if the frame respawned the car (open-terrain and
  highway versions).
\<close>

theorem C3_kinematics_skipped_while_falling:
  assumes "isFalling s"
  shows "movementPhysics k s = s \<and> movementPhysics_highway k s = s
   \<and> velocity (useFrame_terrain f s) =
       (if mounted f \<and> carY s + (verticalVelocity s - gravity) < - 20 then 0 else velocity s)
   \<and> steeringAngle (useFrame_terrain f s) =
       (if mounted f \<and> carY s + (verticalVelocity s - gravity) < - 20 then 0 else steeringAngle s)
   \<and> velocity (useFrame_highway f s) =
       (if mounted f \<and> carY s + (verticalVelocity s - gravity) < - 20 then 0 else velocity s)
   \<and> steeringAngle (useFrame_highway f s) =
       (if mounted f \<and> carY s + (verticalVelocity s - gravity) < - 20 then 0 else steeringAngle s)"
proof (cases "mounted f")
  case False
  then show ?thesis
    using assms
    by (simp add: movementPhysics_falling movementPhysics_highway_falling useFrame_terrain_def
        useFrame_highway_def)
next
  case True
  then show ?thesis
    using assms
    by (simp add: movementPhysics_falling movementPhysics_highway_falling
        useFrame_terrain_falling useFrame_highway_falling cubeCollisions_fields fall_fields
        carY_worldMovement carY_worldMovement_highway worldMovement_fields
        worldMovement_highway_fields respawn_fields)
qed

theorem C3_kinematics_skipped_while_falling_witness:
  "isFalling ((initial [])\<lparr>isFalling := True, velocity := 0.5, steeringAngle := 0.3\<rparr>)
   \<and> movementPhysics (idle\<lparr>forward := True, left := True\<rparr>)
        ((initial [])\<lparr>isFalling := True, velocity := 0.5, steeringAngle := 0.3\<rparr>)
      = (initial [])\<lparr>isFalling := True, velocity := 0.5, steeringAngle := 0.3\<rparr>
   \<and> velocity (useFrame_terrain (frame (idle\<lparr>forward := True, left := True\<rparr>) [terrainHit])
        ((initial [])\<lparr>isFalling := True, velocity := 0.5, steeringAngle := 0.3\<rparr>)) = 0.5
   \<and> steeringAngle (useFrame_highway (frame (idle\<lparr>forward := True, left := True\<rparr>) [terrainHit])
        ((initial [])\<lparr>isFalling := True, velocity := 0.5, steeringAngle := 0.3\<rparr>)) = 0.3"
proof -
  have falling:
    "isFalling ((initial [])\<lparr>isFalling := True, velocity := 0.5, steeringAngle := 0.3\<rparr>)"
    by simp
  have high:
    "\<not> carY ((initial [])\<lparr>isFalling := True, velocity := 0.5, steeringAngle := 0.3\<rparr>)
        + (verticalVelocity ((initial [])\<lparr>isFalling := True, velocity := 0.5, steeringAngle := 0.3\<rparr>)
           - gravity) < - 20"
    by (simp add: carY_def initial_def origin_def gravity_def)
  from C3_kinematics_skipped_while_falling [OF falling] falling high show ?thesis
    by (simp add: initial_def)
qed

text \<open>
  A falling car at speed 0.5 with \<open>forward\<close> held: after the frame the speed is still 0.5,
  where the rule for a grounded car gives 0.52.
\<close>

theorem C3_airborne_speed_frozen_counterexample:
  "velocity (useFrame_terrain (frame (idle\<lparr>forward := True\<rparr>) [])
       ((initial [])\<lparr>isFalling := True, velocity := 0.5\<rparr>))
   \<noteq> updateVelocity (idle\<lparr>forward := True\<rparr>)
        (velocity ((initial [])\<lparr>isFalling := True, velocity := 0.5\<rparr>))"
proof -
  have "velocity (useFrame_terrain (frame (idle\<lparr>forward := True\<rparr>) [])
       ((initial [])\<lparr>isFalling := True, velocity := 0.5\<rparr>)) = 0.5"
    by (simp add: all_defs)
  moreover have "updateVelocity (idle\<lparr>forward := True\<rparr>)
        (velocity ((initial [])\<lparr>isFalling := True, velocity := 0.5\<rparr>)) = 0.52"
    by (simp add: updateVelocity_def MathUtils_clamp_def maxSpeed_def acceleration_def idle_def)
  ultimately show ?thesis by simp
qed

subsection \<open>C4: the speed bound\<close>

text \<open>
  C4. For every frame, every intent vector and every prior speed within
  \<open>[-maxSpeed * 0.5, maxSpeed]\<close>, the speed after one step is within the same bounds,
  with \<open>maxSpeed = 1.2\<close>, whether or not the car is falling; hence the bounds hold after
  any sequence of frames (open-terrain and highway versions).
\<close>

theorem C4_speed_stays_in_bounds:
  assumes "- (maxSpeed * 0.5) \<le> velocity s" "velocity s \<le> maxSpeed"
  shows "- (maxSpeed * 0.5) \<le> velocity (useFrame_terrain f s)
         \<and> velocity (useFrame_terrain f s) \<le> maxSpeed
         \<and> - (maxSpeed * 0.5) \<le> velocity (useFrame_highway f s)
         \<and> velocity (useFrame_highway f s) \<le> maxSpeed
         \<and> - (maxSpeed * 0.5) \<le> velocity (run_terrain fs s)
         \<and> velocity (run_terrain fs s) \<le> maxSpeed
         \<and> - (maxSpeed * 0.5) \<le> velocity (run_highway fs s)
         \<and> velocity (run_highway fs s) \<le> maxSpeed
         \<and> maxSpeed = 1.2 \<and> maxSpeed * 0.5 = 0.6"
proof -
  have b: "- (maxSpeed * 0.5) \<le> velocity s \<and> velocity s \<le> maxSpeed"
    using assms by simp
  show ?thesis
    using useFrame_terrain_speed_bounds [OF b, of f] useFrame_highway_speed_bounds [OF b, of f]
      run_terrain_speed_bounds [OF b, of fs] run_highway_speed_bounds [OF b, of fs]
    by (simp add: maxSpeed_def)
qed

theorem C4_speed_stays_in_bounds_witness:
  "- (maxSpeed * 0.5) \<le> velocity ((initial [])\<lparr>velocity := 1.19\<rparr>)
   \<and> velocity ((initial [])\<lparr>velocity := 1.19\<rparr>) \<le> maxSpeed
   \<and> velocity (useFrame_terrain (frame (idle\<lparr>forward := True\<rparr>) [])
        ((initial [])\<lparr>velocity := 1.19\<rparr>)) \<le> maxSpeed
   \<and> velocity (useFrame_highway (frame (idle\<lparr>forward := True\<rparr>) [])
        ((initial [])\<lparr>velocity := 1.19\<rparr>)) \<le> maxSpeed"
proof -
  have lo: "- (maxSpeed * 0.5) \<le> velocity ((initial [])\<lparr>velocity := 1.19\<rparr>)"
    and hi: "velocity ((initial [])\<lparr>velocity := 1.19\<rparr>) \<le> maxSpeed"
    by (simp_all add: maxSpeed_def)
  from C4_speed_stays_in_bounds [OF lo hi] lo hi show ?thesis
    by blast
qed

subsection \<open>C5: scenario B\<close>

text \<open>
  C5. Scenario B: anchor at \<open>(0, 0, 0)\<close>, a cube that has not fallen at \<open>(0, 1, 2)\<close>, car
  speed 0.5. The planar distance is 2, below 2.5, so the push is applied. The push
  direction is the cube's position normalised in all three coordinates,
  \<open>(0, 1/\<surd>5, 2/\<surd>5)\<close>, with \<open>y\<close> then set to 0.5; scaled by \<open>0.5 * 1.5 + 0.2\<close> it adds
  \<open>(0, 0.5 * 0.95, (2/\<surd>5) * 0.95)\<close> to the cube's velocity. The component along
  \<open>(0, 0, 1)\<close> is \<open>(2/\<surd>5) * (0.5 * 1.5 + 0.2)\<close>.
\<close>

theorem C5_scenario_B_impulse:
  "Vector3_length \<lparr>vx = 0, vy = 0, vz = 2\<rparr> = 2
   \<and> Vector3_normalize \<lparr>vx = 0, vy = 1, vz = 2\<rparr> = \<lparr>vx = 0, vy = 1 / sqrt 5, vz = 2 / sqrt 5\<rparr>
   \<and> cube_velocity (cubeCollision \<lparr>vx = 0, vy = 0, vz = 0\<rparr> 0.5
        \<lparr>cube_position = \<lparr>vx = 0, vy = 1, vz = 2\<rparr>,
         cube_velocity = \<lparr>vx = 0, vy = 0, vz = 0\<rparr>, fallen = False\<rparr>)
      = \<lparr>vx = 0, vy = 0.5 * (0.5 * 1.5 + 0.2), vz = 2 / sqrt 5 * (0.5 * 1.5 + 0.2)\<rparr>"
  using scenarioB_velocity
  by (simp add: scenarioB_lengths Vector3_normalize_def Vector3_divideScalar_def
      Vector3_multiplyScalar_def)

text \<open>The velocity gained along \<open>(0, 0, 1)\<close> is not \<open>0.5 * 1.5 + 0.2\<close>.\<close>

theorem C5_scenario_B_magnitude_counterexample:
  "vz (cube_velocity (cubeCollision \<lparr>vx = 0, vy = 0, vz = 0\<rparr> 0.5
        \<lparr>cube_position = \<lparr>vx = 0, vy = 1, vz = 2\<rparr>,
         cube_velocity = \<lparr>vx = 0, vy = 0, vz = 0\<rparr>, fallen = False\<rparr>))
     \<noteq> 0.5 * 1.5 + 0.2"
proof -
  have "2 / sqrt 5 * 0.95 \<noteq> (0.5 * 1.5 + 0.2 :: real)"
    using sqrt5_not_2 by (simp add: field_simps)
  then show ?thesis
    by (subst scenarioB_velocity) simp
qed

subsection \<open>C6: leaving the falling state\<close>

text \<open>
  C6. If the car is falling before a frame of the open-terrain version and not falling
  after it, then the frame ran the respawn block: the car's height after this frame's
  fall was below \<open>-20\<close>, and the frame ends in the reset state (speed, heading and vertical
  velocity 0, \<open>hasLanded\<close> false, car at height 1, anchor at the origin). The raycast is
  not consulted while falling.
\<close>

theorem C6_falling_ends_only_by_respawn:
  assumes "isFalling s" "\<not> isFalling (useFrame_terrain f s)"
  shows "mounted f
         \<and> carY s + (verticalVelocity s - gravity) < - 20
         \<and> useFrame_terrain f s
             = cubeCollisions (respawn_terrain (random f) (fall (worldMovement s)))
         \<and> velocity (useFrame_terrain f s) = 0
         \<and> steeringAngle (useFrame_terrain f s) = 0
         \<and> verticalVelocity (useFrame_terrain f s) = 0
         \<and> \<not> hasLanded (useFrame_terrain f s)
         \<and> carY (useFrame_terrain f s) = 1
         \<and> position (worldRef (useFrame_terrain f s)) = \<lparr>vx = 0, vy = 0, vz = 0\<rparr>"
proof -
  have m: "mounted f"
  proof (rule ccontr)
    assume "\<not> mounted f"
    then have "useFrame_terrain f s = s" by (simp add: useFrame_terrain_def)
    with assms show False by simp
  qed
  have low: "carY (fall (worldMovement s)) < - 20"
    using assms useFrame_terrain_falling [OF assms(1) m]
    by (auto simp add: cubeCollisions_fields fall_fields worldMovement_fields split: if_splits)
  then have eq: "useFrame_terrain f s
             = cubeCollisions (respawn_terrain (random f) (fall (worldMovement s)))"
    using useFrame_terrain_falling [OF assms(1) m] by simp
  have anchor: "position (worldRef (respawn_terrain (random f) (fall (worldMovement s))))
                  = \<lparr>vx = 0, vy = 0, vz = 0\<rparr>"
    by (simp add: respawn_terrain_def)
  have threshold: "carY s + (verticalVelocity s - gravity) < - 20"
    using low by (simp add: fall_fields carY_worldMovement worldMovement_fields)
  show ?thesis
    using m threshold anchor
    by (simp add: eq cubeCollisions_fields cubeCollisions_hasLanded carY_cubeCollisions
        respawn_fields)
qed

text \<open>A falling car at height \<open>-20\<close>: the next frame respawns it.\<close>

theorem C6_falling_ends_only_by_respawn_witness:
  "isFalling ((initial [])\<lparr>isFalling := True,
       carGroupRef := origin\<lparr>position := \<lparr>vx = 0, vy = - 20, vz = 0\<rparr>\<rparr>\<rparr>)
   \<and> \<not> isFalling (useFrame_terrain (frame idle [terrainHit])
          ((initial [])\<lparr>isFalling := True,
             carGroupRef := origin\<lparr>position := \<lparr>vx = 0, vy = - 20, vz = 0\<rparr>\<rparr>\<rparr>))
   \<and> carY (useFrame_terrain (frame idle [terrainHit])
          ((initial [])\<lparr>isFalling := True,
             carGroupRef := origin\<lparr>position := \<lparr>vx = 0, vy = - 20, vz = 0\<rparr>\<rparr>\<rparr>)) = 1"
proof -
  have a: "isFalling ((initial [])\<lparr>isFalling := True,
       carGroupRef := origin\<lparr>position := \<lparr>vx = 0, vy = - 20, vz = 0\<rparr>\<rparr>\<rparr>)"
    by simp
  have b: "\<not> isFalling (useFrame_terrain (frame idle [terrainHit])
          ((initial [])\<lparr>isFalling := True,
             carGroupRef := origin\<lparr>position := \<lparr>vx = 0, vy = - 20, vz = 0\<rparr>\<rparr>\<rparr>))"
    by (simp add: all_defs)
  from C6_falling_ends_only_by_respawn [OF a b] a b show ?thesis
    by blast
qed

subsection \<open>C7: steering from rest\<close>




subsection \<open>C8: respawn twice\<close>

text \<open>
  C8. Running the respawn block twice in a row leaves the vehicle state as one run
  leaves it: speed, heading, vertical velocity, the falling flag, \<open>hasLanded\<close> and the
  car's transform are the same, and so is the world anchor, whatever random positions the
  two runs give the cubes (open-terrain and highway versions).
\<close>

theorem C8_respawn_idempotent:
  "velocity (respawn_terrain r2 (respawn_terrain r1 s)) = velocity (respawn_terrain r1 s)
   \<and> steeringAngle (respawn_terrain r2 (respawn_terrain r1 s))
       = steeringAngle (respawn_terrain r1 s)
   \<and> verticalVelocity (respawn_terrain r2 (respawn_terrain r1 s))
       = verticalVelocity (respawn_terrain r1 s)
   \<and> isFalling (respawn_terrain r2 (respawn_terrain r1 s)) = isFalling (respawn_terrain r1 s)
   \<and> hasLanded (respawn_terrain r2 (respawn_terrain r1 s)) = hasLanded (respawn_terrain r1 s)
   \<and> carGroupRef (respawn_terrain r2 (respawn_terrain r1 s))
       = carGroupRef (respawn_terrain r1 s)
   \<and> worldRef (respawn_terrain r2 (respawn_terrain r1 s)) = worldRef (respawn_terrain r1 s)
   \<and> velocity (respawn_highway r2 (respawn_highway r1 t)) = velocity (respawn_highway r1 t)
   \<and> steeringAngle (respawn_highway r2 (respawn_highway r1 t))
       = steeringAngle (respawn_highway r1 t)
   \<and> verticalVelocity (respawn_highway r2 (respawn_highway r1 t))
       = verticalVelocity (respawn_highway r1 t)
   \<and> isFalling (respawn_highway r2 (respawn_highway r1 t)) = isFalling (respawn_highway r1 t)
   \<and> hasLanded (respawn_highway r2 (respawn_highway r1 t)) = hasLanded (respawn_highway r1 t)
   \<and> carGroupRef (respawn_highway r2 (respawn_highway r1 t))
       = carGroupRef (respawn_highway r1 t)
   \<and> worldRef (respawn_highway r2 (respawn_highway r1 t)) = worldRef (respawn_highway r1 t)"
  by (simp add: respawn_terrain_def respawn_highway_def)

subsection \<open>C9: the anchor is never rotated\<close>

text \<open>
  C9. In every state reached from the initial one by any sequence of frames, the world
  anchor's rotation is \<open>(0, 0, 0)\<close> and its height is 0, so only its \<open>x\<close> and \<open>z\<close> ever
  change; and from any state at all, a frame that runs ends with the rotation reset
  (open-terrain and highway versions).
\<close>

theorem C9_anchor_never_rotated:
  "rotation (worldRef (run_terrain fs (initial cubes))) = \<lparr>ex = 0, ey = 0, ez = 0\<rparr>
   \<and> vy (position (worldRef (run_terrain fs (initial cubes)))) = 0
   \<and> rotation (worldRef (run_highway fs (initial cubes))) = \<lparr>ex = 0, ey = 0, ez = 0\<rparr>
   \<and> vy (position (worldRef (run_highway fs (initial cubes)))) = 0
   \<and> rotation (worldRef (useFrame_terrain f s)) =
       (if mounted f then \<lparr>ex = 0, ey = 0, ez = 0\<rparr> else rotation (worldRef s))
   \<and> rotation (worldRef (useFrame_highway f s)) =
       (if mounted f then \<lparr>ex = 0, ey = 0, ez = 0\<rparr> else rotation (worldRef s))"
  using run_terrain_anchorAligned [OF initial_anchorAligned, of fs cubes]
    run_highway_anchorAligned [OF initial_anchorAligned, of fs cubes]
  by (simp add: anchorAligned_def useFrame_terrain_rotation useFrame_highway_rotation)

subsection \<open>C10: the world keeps scrolling during a fall\<close>

text \<open>
  C10. In a frame that starts with the car falling (open-terrain and Porsche versions),
  the movement block changes nothing, whatever keys are held. If this frame's fall does
  not take the car below \<open>-20\<close>, speed and heading are after the frame what they were
  before it, the car is still falling, and the scroll-world stage has run with those
  frozen values: the anchor has moved by the displacement
  \<open>(sin(heading) * speed, 0, cos(heading) * speed)\<close>, subtracted as in every frame. If it
  does, the respawn sets speed and heading to 0 and ends the fall.
\<close>

theorem C10_falling_freezes_speed_and_heading:
  assumes "isFalling s" "isFalling p" "mounted f"
  shows "movementPhysics (keys f) s = s
   \<and> (if carY s + (verticalVelocity s - gravity) < - 20
       then velocity (useFrame_terrain f s) = 0 \<and> steeringAngle (useFrame_terrain f s) = 0
            \<and> \<not> isFalling (useFrame_terrain f s)
       else velocity (useFrame_terrain f s) = velocity s
            \<and> steeringAngle (useFrame_terrain f s) = steeringAngle s
            \<and> isFalling (useFrame_terrain f s)
            \<and> position (worldRef (useFrame_terrain f s)) =
                (position (worldRef s))
                  \<lparr>vx := vx (position (worldRef s)) - sin (steeringAngle s) * velocity s,
                   vz := vz (position (worldRef s)) - cos (steeringAngle s) * velocity s\<rparr>)
   \<and> movementPhysics (keys f) p = p
   \<and> (if carY p + (verticalVelocity p - gravity) < - 20
       then velocity (useFrame_porsche f p) = 0 \<and> steeringAngle (useFrame_porsche f p) = 0
            \<and> \<not> isFalling (useFrame_porsche f p)
       else velocity (useFrame_porsche f p) = velocity p
            \<and> steeringAngle (useFrame_porsche f p) = steeringAngle p
            \<and> isFalling (useFrame_porsche f p)
            \<and> position (worldRef (useFrame_porsche f p)) =
                (position (worldRef p))
                  \<lparr>vx := vx (position (worldRef p)) - sin (steeringAngle p) * velocity p,
                   vz := vz (position (worldRef p)) - cos (steeringAngle p) * velocity p\<rparr>)"
  using assms
  by (simp add: movementPhysics_falling useFrame_terrain_falling useFrame_porsche_falling
      cubeCollisions_fields fall_fields carY_worldMovement worldMovement_fields
      worldMovement_anchor respawn_fields respawn_porsche_fields)

text \<open>
  A car falling from height 1 (2 in the Porsche version) at speed 1 and heading 0, with
  \<open>backward\<close> and \<open>right\<close> held: the speed is still 1 and the anchor has moved to
  \<open>z = -1\<close>.
\<close>

theorem C10_falling_freezes_speed_and_heading_witness:
  "isFalling ((initial [])\<lparr>isFalling := True, velocity := 1\<rparr>)
   \<and> isFalling ((initial_porsche [])\<lparr>isFalling := True, velocity := 1\<rparr>)
   \<and> mounted (frame (idle\<lparr>backward := True, right := True\<rparr>) [terrainHit])
   \<and> velocity (useFrame_terrain (frame (idle\<lparr>backward := True, right := True\<rparr>) [terrainHit])
        ((initial [])\<lparr>isFalling := True, velocity := 1\<rparr>)) = 1
   \<and> position (worldRef (useFrame_terrain (frame (idle\<lparr>backward := True, right := True\<rparr>) [terrainHit])
        ((initial [])\<lparr>isFalling := True, velocity := 1\<rparr>))) = \<lparr>vx = 0, vy = 0, vz = - 1\<rparr>
   \<and> velocity (useFrame_porsche (frame (idle\<lparr>backward := True, right := True\<rparr>) [terrainHit])
        ((initial_porsche [])\<lparr>isFalling := True, velocity := 1\<rparr>)) = 1
   \<and> position (worldRef (useFrame_porsche (frame (idle\<lparr>backward := True, right := True\<rparr>) [terrainHit])
        ((initial_porsche [])\<lparr>isFalling := True, velocity := 1\<rparr>))) = \<lparr>vx = 0, vy = 0, vz = - 1\<rparr>"
proof -
  have a: "isFalling ((initial [])\<lparr>isFalling := True, velocity := 1\<rparr>)"
    and b: "isFalling ((initial_porsche [])\<lparr>isFalling := True, velocity := 1\<rparr>)"
    and c: "mounted (frame (idle\<lparr>backward := True, right := True\<rparr>) [terrainHit])"
    by (simp_all add: frame_def)
  have high:
    "\<not> carY ((initial [])\<lparr>isFalling := True, velocity := 1\<rparr>)
        + (verticalVelocity ((initial [])\<lparr>isFalling := True, velocity := 1\<rparr>) - gravity) < - 20"
    "\<not> carY ((initial_porsche [])\<lparr>isFalling := True, velocity := 1\<rparr>)
        + (verticalVelocity ((initial_porsche [])\<lparr>isFalling := True, velocity := 1\<rparr>) - gravity)
        < - 20"
    by (simp_all add: carY_def initial_def initial_porsche_def origin_def gravity_def)
  show ?thesis
    using C10_falling_freezes_speed_and_heading [OF a b c] a b c high
    by (simp add: initial_def initial_porsche_def origin_def)
qed

end
